theory Spec2Isabelle
  imports Complex_Main
begin

section \<open>Exceptions\<close>

text \<open>
  The handlers of \<^verbatim>\<open>src/server.py\<close> tell three classes of exception apart:
  \<^verbatim>\<open>except FileNotFoundError\<close>, \<^verbatim>\<open>except OSError\<close> (written after it, so it sees the
  OSErrors that are not FileNotFoundErrors) and \<^verbatim>\<open>except Exception\<close>. An exception carries
  its message, which \<^verbatim>\<open>str(e)\<close> reads. \<open>Exception\<close> stands for every exception that is
  not an OSError (ValueError, KeyError, pyarrow's ArrowInvalid, ...).
\<close>

datatype exn = FileNotFoundError string | OSError string | Exception string

fun str :: "exn \<Rightarrow> string" where
  "str (FileNotFoundError m) = m"
| "str (OSError m) = m"
| "str (Exception m) = m"

section \<open>Decimal text of Python integers\<close>

definition digit :: "nat \<Rightarrow> char" where
  "digit d = ''0123456789'' ! d"

function str_nat :: "nat \<Rightarrow> string" where
  "str_nat n = (if n < 10 then [digit n] else str_nat (n div 10) @ [digit (n mod 10)])"
  by pat_completeness auto
termination
  by (relation "measure (\<lambda>n. n)") auto

declare str_nat.simps [simp del]

definition str_int :: "int \<Rightarrow> string" where
  "str_int i = (if i < 0 then CHR ''-'' # str_nat (nat (- i)) else str_nat (nat i))"

section \<open>Loan records and tables\<close>

text \<open>
  Only the columns the code names are modelled: \<^verbatim>\<open>loans.loan_type_id\<close>,
  \<^verbatim>\<open>loans.loan_amount\<close>, \<^verbatim>\<open>loan_types.id\<close> (here \<open>type_id\<close>) and \<^verbatim>\<open>county_code\<close>.
  A row of the Parquet files is a row of the join of the two tables.
\<close>

record loan =
  loan_type_id :: int
  county_code :: int
  loan_amount :: int

record loan_type =
  type_id :: int
  loan_type_name :: string

type_synonym row = "loan \<times> loan_type"
type_synonym table = "row list"

definition column_loan_amount :: "table \<Rightarrow> int list" where
  "column_loan_amount t = map (\<lambda>r. loan_amount (fst r)) t"

text \<open>
  \<^verbatim>\<open>int(table.column("loan_amount").to_numpy().mean())\<close>: the mean of an empty array is
  NaN, and \<^verbatim>\<open>int\<close> of NaN raises ValueError; otherwise \<^verbatim>\<open>int\<close> truncates the float64
  mean towards zero.

  numpy converts the values to float64, adds them and divides by the count. When the
  absolute values add up to less than \<open>2 ^ 53\<close>, every value and every partial sum, in
  whatever order numpy adds them, is an integer that float64 holds exactly, and the
  rounded quotient of such a sum \<open>s\<close> by the count \<open>n\<close> has the integer part of \<open>s / n\<close>:
  the quotient is at least \<open>1 / n\<close> away from the next integer, more than half the
  spacing of float64 there. Outside this range the result depends on float64 rounding and
  on numpy's order of summation, which are not in the source: it is the parameter \<open>np\<close>.
\<close>

definition trunc_quot :: "int \<Rightarrow> int \<Rightarrow> int" where
  "trunc_quot s n = sgn s * (\<bar>s\<bar> div n)"

definition float64_exact :: "int list \<Rightarrow> bool" where
  "float64_exact xs = (sum_list (map abs xs) < 2 ^ 53 \<and> int (length xs) < 2 ^ 53)"

definition int_mean :: "(int list \<Rightarrow> int) \<Rightarrow> int list \<Rightarrow> int" where
  "int_mean np xs =
     (if float64_exact xs then trunc_quot (sum_list xs) (int (length xs)) else np xs)"

definition mean_int :: "(int list \<Rightarrow> int) \<Rightarrow> int list \<Rightarrow> exn + int" where
  "mean_int np xs =
     (if xs = [] then Inl (Exception ''cannot convert float NaN to integer'')
      else Inr (int_mean np xs))"

section \<open>The distributed store\<close>

text \<open>
  The store is modelled by what \<^verbatim>\<open>open_input_file\<close> followed by \<^verbatim>\<open>pq.read_table\<close> yields
  at each path: the table, or the exception raised. A path with no file raises
  FileNotFoundError.
\<close>

type_synonym files = "string \<Rightarrow> exn + table"

text \<open>
  What can go wrong in \<^verbatim>\<open>with fs.open_output_stream(path) as f: pq.write_table(table, f)\<close>:
  the open raises and the file is untouched, or the write raises after the file was
  truncated, and later reads of the file raise the second exception.
\<close>

datatype write_fault = OpenFails exn | WriteFails exn exn

text \<open>What the store's client calls of one \<^verbatim>\<open>CalcAvgLoan\<close> call meet.\<close>

record calc_env =
  connect :: "exn option"
  connect_write :: "exn option"
  write_table :: "write_fault option"

section \<open>DbToHdfs\<close>

record database =
  loans :: "loan list"
  loan_types :: "loan_type list"

text \<open>
  The query of lines 32 to 37:
  \<^verbatim>\<open>SELECT * FROM loans INNER JOIN loan_types ON loans.loan_type_id = loan_types.id
  WHERE loans.loan_amount > 30000 AND loans.loan_amount < 800000\<close>.
\<close>

definition query :: "database \<Rightarrow> table" where
  "query d =
     [(l, t). l \<leftarrow> loans d, t \<leftarrow> loan_types d, loan_type_id l = type_id t,
              30000 < loan_amount l \<and> loan_amount l < 800000]"

text \<open>
  What one attempt meets outside the service: whether \<^verbatim>\<open>engine.connect()\<close>,
  \<^verbatim>\<open>pd.read_sql\<close>, \<^verbatim>\<open>pa.Table.from_pandas\<close>, the \<^verbatim>\<open>HadoopFileSystem\<close> constructor and the
  write raise, and the content of the database the query runs on.
\<close>

record attempt_env =
  db_connect :: "exn option"
  db :: database
  read_sql :: "exn option"
  from_pandas :: "exn option"
  hdfs_connect :: "exn option"
  hdfs_write :: "write_fault option"

text \<open>
  The state the call threads: the store, the number of database connections that were
  opened and not closed, and the log of attempts (line 28) and sleeps (line 64). The
  output stream is opened in a \<^verbatim>\<open>with\<close> block, which closes it on every exit.
\<close>

datatype event = Attempt nat | Sleep nat

record state =
  hdfs :: files
  open_connections :: nat
  events :: "event list"

record StatusString =
  status :: string

definition max_retries :: nat where
  "max_retries = 5"

text \<open>The body of the \<^verbatim>\<open>try\<close> of one attempt (lines 28 to 59); \<open>Inr n\<close> is \<^verbatim>\<open>len(df)\<close>.\<close>

definition attempt_body :: "attempt_env \<Rightarrow> nat \<Rightarrow> state \<Rightarrow> (exn + nat) \<times> state" where
  "attempt_body w attempt s =
     (let s0 = s\<lparr>events := events s @ [Attempt (attempt + 1)]\<rparr> in
      case db_connect w of
        Some e \<Rightarrow> (Inl e, s0)
      | None \<Rightarrow>
          (let s1 = s0\<lparr>open_connections := open_connections s0 + 1\<rparr> in
           case read_sql w of
             Some e \<Rightarrow> (Inl e, s1)
           | None \<Rightarrow>
               (let df = query (db w);
                    s2 = s1\<lparr>open_connections := open_connections s1 - 1\<rparr> in
                case from_pandas w of
                  Some e \<Rightarrow> (Inl e, s2)
                | None \<Rightarrow>
                    (case hdfs_connect w of
                       Some e \<Rightarrow> (Inl e, s2)
                     | None \<Rightarrow>
                         (case hdfs_write w of
                            Some (OpenFails e) \<Rightarrow> (Inl e, s2)
                          | Some (WriteFails e left) \<Rightarrow>
                              (Inl e, s2\<lparr>hdfs := (hdfs s2)(''/hdma-wi-2021.parquet'' := Inl left)\<rparr>)
                          | None \<Rightarrow>
                              (Inr (length df),
                               s2\<lparr>hdfs := (hdfs s2)(''/hdma-wi-2021.parquet'' := Inr df)\<rparr>))))))"

text \<open>
  The \<^verbatim>\<open>for attempt in range(max_retries)\<close> loop, over the attempts still to make. Running
  off the end of the loop returns Python's \<^verbatim>\<open>None\<close>.
\<close>

fun retry_loop :: "(nat \<Rightarrow> attempt_env) \<Rightarrow> nat list \<Rightarrow> state \<Rightarrow> StatusString option \<times> state" where
  "retry_loop env [] s = (None, s)"
| "retry_loop env (attempt # rest) s =
     (case attempt_body (env attempt) attempt s of
        (Inr n, s') \<Rightarrow>
          (Some \<lparr>status = ''DbToHdfs: Successfully wrote '' @ str_nat n @ '' rows''\<rparr>, s')
      | (Inl e, s') \<Rightarrow>
          (if attempt < max_retries - 1
           then retry_loop env rest (s'\<lparr>events := events s' @ [Sleep 10]\<rparr>)
           else (Some \<lparr>status = ''ERROR: Could not complete operation after ''
                           @ str_nat max_retries @ '' attempts: '' @ str e\<rparr>, s')))"

definition DbToHdfs :: "(nat \<Rightarrow> attempt_env) \<Rightarrow> state \<Rightarrow> StatusString option \<times> state" where
  "DbToHdfs env s = retry_loop env [0..<max_retries] s"

text \<open>
  The log of the failed attempts \<open>a\<close> to \<open>k - 1\<close>: each is followed by its sleep of 10
  seconds.
\<close>

definition backoff_log :: "nat \<Rightarrow> nat \<Rightarrow> event list" where
  "backoff_log a k = concat (map (\<lambda>i. [Attempt (i + 1), Sleep 10]) [a..<k])"

text \<open>The exception the \<^verbatim>\<open>try\<close> block of an attempt raises, if any: the first step that fails.\<close>

definition attempt_raises :: "attempt_env \<Rightarrow> exn option" where
  "attempt_raises w =
     (case db_connect w of Some e \<Rightarrow> Some e | None \<Rightarrow>
      case read_sql w of Some e \<Rightarrow> Some e | None \<Rightarrow>
      case from_pandas w of Some e \<Rightarrow> Some e | None \<Rightarrow>
      case hdfs_connect w of Some e \<Rightarrow> Some e | None \<Rightarrow>
      case hdfs_write w of
        Some (OpenFails e) \<Rightarrow> Some e
      | Some (WriteFails e left) \<Rightarrow> Some e
      | None \<Rightarrow> None)"

text \<open>
  The claim's words: the loan records whose amount is strictly between the two bounds.
\<close>

definition eligible_loans :: "database \<Rightarrow> loan list" where
  "eligible_loans d = filter (\<lambda>l. 30000 < loan_amount l \<and> loan_amount l < 800000) (loans d)"

text \<open>The number of rows of \<^verbatim>\<open>loan_types\<close> that a loan joins with.\<close>

definition type_matches :: "database \<Rightarrow> loan \<Rightarrow> nat" where
  "type_matches d l = length (filter (\<lambda>t. loan_type_id l = type_id t) (loan_types d))"

text \<open>Every loan names exactly one row of \<^verbatim>\<open>loan_types\<close>.\<close>

definition one_type_each :: "database \<Rightarrow> bool" where
  "one_type_each d = list_all (\<lambda>l. type_matches d l = 1) (loans d)"

section \<open>BlockLocations\<close>

text \<open>
  The JSON answer of WebHDFS to \<^verbatim>\<open>GETFILEBLOCKLOCATIONS\<close>, with the keys that the code
  reads through \<^verbatim>\<open>.get(key, default)\<close> optional.
\<close>

record block =
  hosts :: "string list option"

record block_locations =
  BlockLocation :: "block list option"

record result =
  BlockLocations_key :: "block_locations option"

text \<open>
  The answer to \<^verbatim>\<open>requests.get\<close>: the status line, the URL as the library reports it
  (\<^verbatim>\<open>response.url\<close>, percent-encoded by the library) and what \<^verbatim>\<open>response.json()\<close> yields.
  \<open>raise_for_status\<close> is the method of the \<^verbatim>\<open>requests\<close> library: it raises HTTPError, with
  the message below, for the status codes 400 to 599.
\<close>

record response =
  status_code :: nat
  reason :: string
  url :: string
  json :: "exn + result"

definition raise_for_status :: "response \<Rightarrow> exn option" where
  "raise_for_status r =
     (if 400 \<le> status_code r \<and> status_code r < 500
      then Some (Exception (str_nat (status_code r) @ '' Client Error: '' @ reason r
                            @ '' for url: '' @ url r))
      else if 500 \<le> status_code r \<and> status_code r < 600
      then Some (Exception (str_nat (status_code r) @ '' Server Error: '' @ reason r
                            @ '' for url: '' @ url r))
      else None)"

record BlockLocationsResp =
  block_entries :: "string \<rightharpoonup> int"
  error :: string

definition webhdfs_url :: "string \<Rightarrow> string" where
  "webhdfs_url filepath = ''http://boss:9870/webhdfs/v1'' @ filepath @ ''?op=GETFILEBLOCKLOCATIONS''"

text \<open>\<^verbatim>\<open>result.get("BlockLocations", {}).get("BlockLocation", [])\<close>\<close>

definition block_location_list :: "result \<Rightarrow> block list" where
  "block_location_list r =
     (case BlockLocations_key r of
        None \<Rightarrow> []
      | Some bl \<Rightarrow> (case BlockLocation bl of None \<Rightarrow> [] | Some bs \<Rightarrow> bs))"

text \<open>\<^verbatim>\<open>block.get("hosts", [])\<close>\<close>

definition block_hosts :: "block \<Rightarrow> string list" where
  "block_hosts b = (case hosts b of None \<Rightarrow> [] | Some hs \<Rightarrow> hs)"

text \<open>\<^verbatim>\<open>blocks.get(host, 0)\<close>\<close>

definition counter :: "(string \<rightharpoonup> int) \<Rightarrow> string \<Rightarrow> int" where
  "counter blocks host = (case blocks host of None \<Rightarrow> 0 | Some c \<Rightarrow> c)"

text \<open>The inner loop: \<^verbatim>\<open>blocks[host] = blocks.get(host, 0) + 1\<close> for each host.\<close>

fun count_hosts :: "(string \<rightharpoonup> int) \<Rightarrow> string list \<Rightarrow> (string \<rightharpoonup> int)" where
  "count_hosts blocks [] = blocks"
| "count_hosts blocks (host # rest) =
     count_hosts (blocks(host \<mapsto> counter blocks host + 1)) rest"

text \<open>The outer loop over the block descriptors.\<close>

fun count_blocks :: "(string \<rightharpoonup> int) \<Rightarrow> block list \<Rightarrow> (string \<rightharpoonup> int)" where
  "count_blocks blocks [] = blocks"
| "count_blocks blocks (b # rest) = count_blocks (count_hosts blocks (block_hosts b)) rest"

definition BlockLocations :: "(string \<Rightarrow> exn + response) \<Rightarrow> string \<Rightarrow> BlockLocationsResp" where
  "BlockLocations web filepath =
     (let webhdfs = webhdfs_url filepath in
      case web webhdfs of
        Inl e \<Rightarrow> \<lparr>block_entries = Map.empty, error = str e\<rparr>
      | Inr response \<Rightarrow>
          (case raise_for_status response of
             Some e \<Rightarrow> \<lparr>block_entries = Map.empty, error = str e\<rparr>
           | None \<Rightarrow>
               (case json response of
                  Inl e \<Rightarrow> \<lparr>block_entries = Map.empty, error = str e\<rparr>
                | Inr result \<Rightarrow>
                    \<lparr>block_entries = count_blocks Map.empty (block_location_list result),
                     error = ''''\<rparr>)))"

section \<open>CalcAvgLoan\<close>

record CalcAvgLoanResp =
  avg_loan :: int
  source :: string
  error :: string

definition partition_path :: "int \<Rightarrow> string" where
  "partition_path code = ''/partitions/'' @ str_int code @ ''.parquet''"

definition main_file_path :: string where
  "main_file_path = ''/hdma-wi-2021.parquet''"

text \<open>The body of the inner \<^verbatim>\<open>try\<close> (lines 105 to 111).\<close>

definition reuse_partition ::
  "(int list \<Rightarrow> int) \<Rightarrow> files \<Rightarrow> string \<Rightarrow> exn + CalcAvgLoanResp" where
  "reuse_partition np fs path =
     (case fs path of
        Inl e \<Rightarrow> Inl e
      | Inr table \<Rightarrow>
          (case mean_int np (column_loan_amount table) of
             Inl e \<Rightarrow> Inl e
           | Inr avg \<Rightarrow> Inr \<lparr>avg_loan = avg, source = ''reuse'', error = ''''\<rparr>))"

text \<open>\<^verbatim>\<open>pq.read_table(f, filters=[("county_code", "=", county_code)])\<close>.\<close>

definition matching_rows :: "int \<Rightarrow> table \<Rightarrow> table" where
  "matching_rows code main = filter (\<lambda>r. county_code (fst r) = code) main"

text \<open>Lines 123 to 143, reached with \<open>source\<close> set by one of the two handlers.\<close>

definition rebuild_partition ::
  "(int list \<Rightarrow> int) \<Rightarrow> calc_env \<Rightarrow> files \<Rightarrow> int \<Rightarrow> string
     \<Rightarrow> (exn + CalcAvgLoanResp) \<times> files" where
  "rebuild_partition np env fs code src =
     (case fs main_file_path of
        Inl e \<Rightarrow> (Inl e, fs)
      | Inr main \<Rightarrow>
          (let table = matching_rows code main in
           case mean_int np (column_loan_amount table) of
             Inl e \<Rightarrow> (Inl e, fs)
           | Inr avg \<Rightarrow>
               (case connect_write env of
                  Some e \<Rightarrow> (Inl e, fs)
                | None \<Rightarrow>
                    (case write_table env of
                       Some (OpenFails e) \<Rightarrow> (Inl e, fs)
                     | Some (WriteFails e left) \<Rightarrow>
                         (Inl e, fs(partition_path code := Inl left))
                     | None \<Rightarrow>
                         (Inr \<lparr>avg_loan = avg, source = src, error = ''''\<rparr>,
                          fs(partition_path code := Inr table))))))"

text \<open>The body of the outer \<^verbatim>\<open>try\<close> (lines 101 to 143): \<open>Inl e\<close> when it raises \<open>e\<close>.\<close>

definition CalcAvgLoan_try ::
  "(int list \<Rightarrow> int) \<Rightarrow> calc_env \<Rightarrow> files \<Rightarrow> int \<Rightarrow> (exn + CalcAvgLoanResp) \<times> files" where
  "CalcAvgLoan_try np env fs code =
     (case connect env of
        Some e \<Rightarrow> (Inl e, fs)
      | None \<Rightarrow>
          (case reuse_partition np fs (partition_path code) of
             Inr resp \<Rightarrow> (Inr resp, fs)
           | Inl (FileNotFoundError m) \<Rightarrow> rebuild_partition np env fs code ''create''
           | Inl (OSError m) \<Rightarrow> rebuild_partition np env fs code ''recreate''
           | Inl (Exception m) \<Rightarrow> (Inl (Exception m), fs)))"

definition CalcAvgLoan ::
  "(int list \<Rightarrow> int) \<Rightarrow> calc_env \<Rightarrow> files \<Rightarrow> int \<Rightarrow> CalcAvgLoanResp \<times> files" where
  "CalcAvgLoan np env fs code =
     (case CalcAvgLoan_try np env fs code of
        (Inr resp, fs') \<Rightarrow> (resp, fs')
      | (Inl e, fs') \<Rightarrow> (\<lparr>avg_loan = 0, source = '''', error = str e\<rparr>, fs'))"

section \<open>Sample data\<close>

text \<open>Concrete stores, databases and answers on which the properties below are evaluated.\<close>

definition mk_row :: "int \<Rightarrow> int \<Rightarrow> row" where
  "mk_row code amount =
     (\<lparr>loan_type_id = 1, county_code = code, loan_amount = amount\<rparr>,
      \<lparr>type_id = 1, loan_type_name = ''Conventional''\<rparr>)"

definition no_file :: files where
  "no_file = (\<lambda>path. Inl (FileNotFoundError ''No such file or directory''))"

definition sample_main :: table where
  "sample_main = [mk_row 55001 100000, mk_row 55003 70000, mk_row 55001 150001]"

definition sample_files :: files where
  "sample_files = no_file(main_file_path := Inr sample_main)"

definition healthy :: calc_env where
  "healthy = \<lparr>connect = None, connect_write = None, write_table = None\<rparr>"

definition stale_files :: files where
  "stale_files = sample_files(partition_path 55001 := Inr [mk_row 55001 200000])"

definition corrupted_files :: files where
  "corrupted_files =
     sample_files(partition_path 55001 :=
       Inl (Exception ''Parquet magic bytes not found in footer''))"

definition unavailable_files :: files where
  "unavailable_files =
     sample_files(partition_path 55001 := Inl (OSError ''Could not obtain block''))"

definition unreachable :: calc_env where
  "unreachable = \<lparr>connect = Some (Exception ''''), connect_write = None, write_table = None\<rparr>"

definition numpy_sample :: "int list \<Rightarrow> int" where
  "numpy_sample xs = 9007199254740992"

definition huge_files :: files where
  "huge_files = no_file(main_file_path := Inr [mk_row 55001 9007199254740993])"

definition sample_partition :: table where
  "sample_partition = [mk_row 55001 100000, mk_row 55001 150001]"

definition sample_result :: result where
  "sample_result =
     \<lparr>BlockLocations_key = Some \<lparr>BlockLocation = Some
        [\<lparr>hosts = Some [''dn1'', ''dn2'']\<rparr>, \<lparr>hosts = Some [''dn2'', ''dn3'']\<rparr>]\<rparr>\<rparr>"

definition ok_response :: response where
  "ok_response =
     \<lparr>status_code = 200, reason = ''OK'', url = webhdfs_url ''/hdma-wi-2021.parquet'',
      json = Inr sample_result\<rparr>"

definition not_found :: "string \<Rightarrow> response" where
  "not_found u =
     \<lparr>status_code = 404, reason = ''Not Found'', url = u,
      json = Inr \<lparr>BlockLocations_key = None\<rparr>\<rparr>"

definition sample_web :: "string \<Rightarrow> exn + response" where
  "sample_web u =
     (if u = webhdfs_url ''/hdma-wi-2021.parquet'' then Inr ok_response else Inr (not_found u))"

definition silent_web :: "string \<Rightarrow> exn + response" where
  "silent_web u = Inl (Exception '''')"

definition sample_db :: database where
  "sample_db =
     \<lparr>loans = [\<lparr>loan_type_id = 1, county_code = 55001, loan_amount = 30000\<rparr>,
               \<lparr>loan_type_id = 1, county_code = 55001, loan_amount = 30001\<rparr>,
               \<lparr>loan_type_id = 2, county_code = 55003, loan_amount = 799999\<rparr>,
               \<lparr>loan_type_id = 2, county_code = 55003, loan_amount = 800000\<rparr>,
               \<lparr>loan_type_id = 1, county_code = 55027, loan_amount = 120000\<rparr>],
      loan_types = [\<lparr>type_id = 1, loan_type_name = ''Conventional''\<rparr>,
                    \<lparr>type_id = 2, loan_type_name = ''FHA-insured''\<rparr>]\<rparr>"

definition orphan_db :: database where
  "orphan_db =
     \<lparr>loans = [\<lparr>loan_type_id = 7, county_code = 55001, loan_amount = 120000\<rparr>],
      loan_types = [\<lparr>type_id = 1, loan_type_name = ''Conventional''\<rparr>]\<rparr>"

definition good_attempt :: attempt_env where
  "good_attempt =
     \<lparr>db_connect = None, db = sample_db, read_sql = None, from_pandas = None,
      hdfs_connect = None, hdfs_write = None\<rparr>"

definition db_down :: attempt_env where
  "db_down = good_attempt\<lparr>db_connect := Some (Exception ''Connection refused'')\<rparr>"

definition query_fails :: attempt_env where
  "query_fails = good_attempt\<lparr>read_sql := Some (Exception ''Lost connection during query'')\<rparr>"

definition orphan_attempt :: attempt_env where
  "orphan_attempt = good_attempt\<lparr>db := orphan_db\<rparr>"

definition every_attempt :: "attempt_env \<Rightarrow> nat \<Rightarrow> attempt_env" where
  "every_attempt w i = w"

definition flaky :: "nat \<Rightarrow> attempt_env" where
  "flaky i = (if i < 2 then db_down else good_attempt)"

definition initial_state :: state where
  "initial_state = \<lparr>hdfs = no_file, open_connections = 0, events = []\<rparr>"

section \<open>Facts about CalcAvgLoan\<close>

lemma partition_path_not_main: "partition_path code \<noteq> main_file_path"
  by (simp add: partition_path_def main_file_path_def)

lemma mean_int_Nil: "mean_int np [] = Inl (Exception ''cannot convert float NaN to integer'')"
  by (simp add: mean_int_def)

lemma trunc_quot_real:
  assumes "0 < n"
  shows "trunc_quot s n = (if 0 \<le> s then \<lfloor>real_of_int s / real_of_int n\<rfloor> else \<lceil>real_of_int s / real_of_int n\<rceil>)"
proof (cases "0 \<le> s")
  case True
  then show ?thesis by (cases "s = 0") (simp_all add: trunc_quot_def floor_divide_of_int_eq)
next
  case False
  then have "\<lceil>real_of_int s / real_of_int n\<rceil> = - \<lfloor>real_of_int (- s) / real_of_int n\<rfloor>"
    by (simp add: ceiling_def)
  also have "\<dots> = - ((- s) div n)" by (simp only: floor_divide_of_int_eq)
  finally show ?thesis using False by (simp add: trunc_quot_def)
qed

lemma reuse_partition_table:
  "fs path = Inr t \<Longrightarrow> t \<noteq> [] \<Longrightarrow>
   reuse_partition np fs path =
     Inr \<lparr>avg_loan = int_mean np (column_loan_amount t),
          source = ''reuse'', error = ''''\<rparr>"
  by (simp add: reuse_partition_def mean_int_def column_loan_amount_def)

lemma CalcAvgLoan_reuse:
  "connect env = None \<Longrightarrow> fs (partition_path code) = Inr t \<Longrightarrow> t \<noteq> [] \<Longrightarrow>
   CalcAvgLoan np env fs code =
     (\<lparr>avg_loan = int_mean np (column_loan_amount t),
       source = ''reuse'', error = ''''\<rparr>, fs)"
  by (simp add: CalcAvgLoan_def CalcAvgLoan_try_def reuse_partition_table)

lemma rebuild_partition_written:
  assumes "fs main_file_path = Inr main" and "matching_rows code main \<noteq> []"
    and "connect_write env = None" and "write_table env = None"
  shows "rebuild_partition np env fs code src =
     (Inr \<lparr>avg_loan = int_mean np (column_loan_amount (matching_rows code main)),
           source = src, error = ''''\<rparr>,
      fs(partition_path code := Inr (matching_rows code main)))"
  using assms
  by (simp add: rebuild_partition_def mean_int_def column_loan_amount_def Let_def)

lemma rebuild_partition_Inr:
  assumes "rebuild_partition np env fs code src = (Inr resp, fs')"
  shows "\<exists>main. fs main_file_path = Inr main \<and> matching_rows code main \<noteq> []
           \<and> connect_write env = None \<and> write_table env = None
           \<and> resp = \<lparr>avg_loan = int_mean np (column_loan_amount (matching_rows code main)),
                       source = src, error = ''''\<rparr>
           \<and> fs' = fs(partition_path code := Inr (matching_rows code main))"
  using assms
  by (auto simp: rebuild_partition_def mean_int_def column_loan_amount_def Let_def
      split: sum.splits option.splits write_fault.splits if_splits)

lemma reuse_partition_raises:
  "reuse_partition np fs path = Inl e \<Longrightarrow>
     fs path = Inl e \<or> (fs path = Inr [] \<and> e = Exception ''cannot convert float NaN to integer'')"
  by (auto simp: reuse_partition_def mean_int_def column_loan_amount_def split: sum.splits if_splits)

lemma reuse_partition_Inr:
  "reuse_partition np fs path = Inr resp \<Longrightarrow>
     \<exists>t. fs path = Inr t \<and> t \<noteq> []
       \<and> resp = \<lparr>avg_loan = int_mean np (column_loan_amount t),
                   source = ''reuse'', error = ''''\<rparr>"
  by (auto simp: reuse_partition_def mean_int_def column_loan_amount_def split: sum.splits if_splits)

lemma CalcAvgLoan_cases:
  assumes "CalcAvgLoan np env fs code = (resp, fs')"
  shows "(connect env = None \<and> reuse_partition np fs (partition_path code) = Inr resp \<and> fs' = fs)
       \<or> (\<exists>m. connect env = None \<and> fs (partition_path code) = Inl (FileNotFoundError m)
              \<and> rebuild_partition np env fs code ''create'' = (Inr resp, fs'))
       \<or> (\<exists>m. connect env = None \<and> fs (partition_path code) = Inl (OSError m)
              \<and> rebuild_partition np env fs code ''recreate'' = (Inr resp, fs'))
       \<or> (\<exists>e. fst (CalcAvgLoan_try np env fs code) = Inl e
              \<and> resp = \<lparr>avg_loan = 0, source = '''', error = str e\<rparr>)"
proof (cases "connect env")
  case (Some e)
  with assms show ?thesis by (simp add: CalcAvgLoan_def CalcAvgLoan_try_def)
next
  case None
  show ?thesis
  proof (cases "reuse_partition np fs (partition_path code)")
    case (Inr r)
    with None assms show ?thesis by (simp add: CalcAvgLoan_def CalcAvgLoan_try_def)
  next
    case (Inl e)
    show ?thesis
    proof (cases e)
      case (FileNotFoundError m)
      with Inl reuse_partition_raises [of np fs "partition_path code" e]
      have f: "fs (partition_path code) = Inl (FileNotFoundError m)" by auto
      from assms None Inl FileNotFoundError f show ?thesis
        by (cases "rebuild_partition np env fs code ''create''")
          (auto simp: CalcAvgLoan_def CalcAvgLoan_try_def split: sum.splits)
    next
      case (OSError m)
      with Inl reuse_partition_raises [of np fs "partition_path code" e]
      have f: "fs (partition_path code) = Inl (OSError m)" by auto
      from assms None Inl OSError f show ?thesis
        by (cases "rebuild_partition np env fs code ''recreate''")
          (auto simp: CalcAvgLoan_def CalcAvgLoan_try_def split: sum.splits)
    next
      case (Exception m)
      with assms None Inl show ?thesis by (simp add: CalcAvgLoan_def CalcAvgLoan_try_def)
    qed
  qed
qed

lemma CalcAvgLoan_raised:
  "fst (CalcAvgLoan_try np env fs code) = Inl e \<Longrightarrow>
   fst (CalcAvgLoan np env fs code) = \<lparr>avg_loan = 0, source = '''', error = str e\<rparr>"
  by (cases "CalcAvgLoan_try np env fs code") (simp add: CalcAvgLoan_def)

lemma rebuild_partition_raises:
  assumes "fs main_file_path = Inl e
     \<or> (\<exists>main. fs main_file_path = Inr main \<and> matching_rows code main = []
           \<and> e = Exception ''cannot convert float NaN to integer'')
     \<or> (\<exists>main. fs main_file_path = Inr main \<and> matching_rows code main \<noteq> []
           \<and> (connect_write env = Some e
               \<or> connect_write env = None
                  \<and> (write_table env = Some (OpenFails e)
                      \<or> (\<exists>left. write_table env = Some (WriteFails e left)))))"
  shows "fst (rebuild_partition np env fs code src) = Inl e"
  using assms
  by (auto simp: rebuild_partition_def mean_int_def column_loan_amount_def Let_def)

lemma sample_rows: "matching_rows 55001 sample_main = sample_partition"
  by (simp add: matching_rows_def sample_main_def mk_row_def sample_partition_def)

lemma sample_partition_missing:
  "sample_files (partition_path code) = Inl (FileNotFoundError ''No such file or directory'')"
  by (simp add: sample_files_def no_file_def partition_path_not_main)

lemma sample_main_read: "sample_files main_file_path = Inr sample_main"
  by (simp add: sample_files_def)

lemma sample_create:
  "CalcAvgLoan numpy_sample healthy sample_files 55001 =
     (\<lparr>avg_loan = 125000, source = ''create'', error = ''''\<rparr>,
      sample_files(partition_path 55001 := Inr sample_partition))"
  by (simp add: CalcAvgLoan_def CalcAvgLoan_try_def reuse_partition_def sample_partition_missing
      rebuild_partition_def sample_main_read sample_rows mean_int_def column_loan_amount_def
      mk_row_def trunc_quot_def healthy_def sample_partition_def int_mean_def float64_exact_def)

lemma sample_reuse:
  "CalcAvgLoan numpy_sample healthy (sample_files(partition_path 55001 := Inr sample_partition)) 55001 =
     (\<lparr>avg_loan = 125000, source = ''reuse'', error = ''''\<rparr>,
      sample_files(partition_path 55001 := Inr sample_partition))"
  by (simp add: CalcAvgLoan_def CalcAvgLoan_try_def reuse_partition_def mean_int_def
      column_loan_amount_def sample_partition_def mk_row_def trunc_quot_def healthy_def
      int_mean_def float64_exact_def)

lemma stale_reuse:
  "CalcAvgLoan numpy_sample healthy stale_files 55001 =
     (\<lparr>avg_loan = 200000, source = ''reuse'', error = ''''\<rparr>, stale_files)"
  by (simp add: CalcAvgLoan_def CalcAvgLoan_try_def reuse_partition_def stale_files_def
      mean_int_def column_loan_amount_def mk_row_def trunc_quot_def healthy_def
      int_mean_def float64_exact_def)

lemma unavailable_partition:
  "unavailable_files (partition_path 55001) = Inl (OSError ''Could not obtain block'')"
  by (simp add: unavailable_files_def)

lemma unavailable_main: "unavailable_files main_file_path = Inr sample_main"
  using partition_path_not_main [of 55001]
  by (simp add: unavailable_files_def fun_upd_def sample_main_read)

lemma int_mean_exact:
  "float64_exact xs \<Longrightarrow> int_mean np xs = trunc_quot (sum_list xs) (int (length xs))"
  by (simp add: int_mean_def)

lemma sample_partition_mean: "int_mean np (column_loan_amount sample_partition) = 125000"
  by (simp add: int_mean_def float64_exact_def column_loan_amount_def sample_partition_def
      mk_row_def trunc_quot_def)

lemma CalcAvgLoan_recreate:
  assumes "connect env = None"
    and "fs (partition_path code) = Inl (OSError m)"
    and "fs main_file_path = Inr main"
    and "matching_rows code main \<noteq> []"
    and "connect_write env = None"
    and "write_table env = None"
  shows "CalcAvgLoan np env fs code =
           (\<lparr>avg_loan = int_mean np (column_loan_amount (matching_rows code main)),
             source = ''recreate'', error = ''''\<rparr>,
            fs(partition_path code := Inr (matching_rows code main)))"
proof -
  have "reuse_partition np fs (partition_path code) = Inl (OSError m)"
    using assms(2) by (simp add: reuse_partition_def)
  then show ?thesis
    using assms(1,3-6) rebuild_partition_written [where fs = fs and main = main and code = code
        and env = env and np = np and src = "''recreate''"]
    by (simp add: CalcAvgLoan_def CalcAvgLoan_try_def)
qed

lemma corrupted_partition:
  "corrupted_files (partition_path 55001) =
     Inl (Exception ''Parquet magic bytes not found in footer'')"
  by (simp add: corrupted_files_def)

lemma corrupted_main: "corrupted_files main_file_path = Inr sample_main"
  using partition_path_not_main [of 55001]
  by (simp add: corrupted_files_def fun_upd_def sample_main_read)

lemma huge_create:
  "fst (CalcAvgLoan numpy_sample healthy huge_files 55001) =
     \<lparr>avg_loan = 9007199254740992, source = ''create'', error = ''''\<rparr>"
  by (simp add: CalcAvgLoan_def CalcAvgLoan_try_def reuse_partition_def rebuild_partition_def
      huge_files_def no_file_def partition_path_not_main matching_rows_def mk_row_def
      mean_int_def int_mean_def float64_exact_def column_loan_amount_def healthy_def
      numpy_sample_def Let_def)

section \<open>Properties of CalcAvgLoan\<close>

text \<open>
  C1. When a call for a key returns with source \<open>create\<close> (no partition file existed and
  the key has matching rows, or the call would have ended in the error result), a second
  call for the same key on the store the first call left, in which the store can be
  reached, returns the same average with source \<open>reuse\<close> and leaves the store as it is.
\<close>

theorem CalcAvgLoan_create_then_reuse:
  assumes "CalcAvgLoan np env fs code = (resp, fs')"
    and "source resp = ''create''"
    and "connect env' = None"
  shows "CalcAvgLoan np env' fs' code =
           (\<lparr>avg_loan = avg_loan resp, source = ''reuse'', error = ''''\<rparr>, fs')"
proof -
  from CalcAvgLoan_cases [OF assms(1)] assms(2)
  have r: "rebuild_partition np env fs code ''create'' = (Inr resp, fs')"
    by (auto dest: reuse_partition_Inr rebuild_partition_Inr)
  from rebuild_partition_Inr [OF r] obtain main where
    m: "matching_rows code main \<noteq> []"
       "avg_loan resp = int_mean np (column_loan_amount (matching_rows code main))"
       "fs' (partition_path code) = Inr (matching_rows code main)" by auto
  show ?thesis
    using CalcAvgLoan_reuse [where env = env' and fs = fs' and code = code
        and t = "matching_rows code main" and np = np] assms(3) m by simp
qed

theorem CalcAvgLoan_create_then_reuse_witness:
  "CalcAvgLoan numpy_sample healthy sample_files 55001 =
     (\<lparr>avg_loan = 125000, source = ''create'', error = ''''\<rparr>,
      sample_files(partition_path 55001 := Inr sample_partition))
   \<and> source \<lparr>avg_loan = 125000, source = ''create'', error = ''''\<rparr> = ''create''
   \<and> connect healthy = None
   \<and> CalcAvgLoan numpy_sample healthy (sample_files(partition_path 55001 := Inr sample_partition)) 55001 =
     (\<lparr>avg_loan = 125000, source = ''reuse'', error = ''''\<rparr>,
      sample_files(partition_path 55001 := Inr sample_partition))"
proof -
  have h: "connect healthy = None" by (simp add: healthy_def)
  show ?thesis using CalcAvgLoan_create_then_reuse [OF sample_create _ h] sample_create h by simp
qed

text \<open>
  C2. For a key with at least one matching row in the main dataset whose absolute loan
  amounts add up to less than \<open>2 ^ 53\<close> (the range in which the float64 mean is exact), the
  average of a call that returns source \<open>create\<close> or \<open>recreate\<close> is the sum of
  \<open>loan_amount\<close> over the matching rows divided by their number, truncated towards zero.
  A call that returns source \<open>reuse\<close> averages the rows of the partition file, so the same
  holds for it when the partition file holds exactly the matching rows of the main
  dataset. The quotient is written here over the reals: floor for a sum that is not
  negative, ceiling otherwise.
\<close>

theorem CalcAvgLoan_average:
  assumes "fs main_file_path = Inr main"
    and "matching_rows code main \<noteq> []"
    and "float64_exact (column_loan_amount (matching_rows code main))"
    and "CalcAvgLoan np env fs code = (resp, fs')"
    and "source resp = ''create'' \<or> source resp = ''recreate''
         \<or> (source resp = ''reuse'' \<and> fs (partition_path code) = Inr (matching_rows code main))"
  shows "avg_loan resp =
           (if 0 \<le> sum_list (column_loan_amount (matching_rows code main))
            then \<lfloor>real_of_int (sum_list (column_loan_amount (matching_rows code main)))
                   / real (length (matching_rows code main))\<rfloor>
            else \<lceil>real_of_int (sum_list (column_loan_amount (matching_rows code main)))
                   / real (length (matching_rows code main))\<rceil>)"
proof -
  let ?rows = "matching_rows code main"
  let ?q = "int_mean np (column_loan_amount ?rows)"
  have pos: "0 < int (length ?rows)" using assms(2) by simp
  from CalcAvgLoan_cases [OF assms(4)] have "avg_loan resp = ?q"
  proof (elim disjE exE conjE)
    assume "reuse_partition np fs (partition_path code) = Inr resp"
    from reuse_partition_Inr [OF this] assms(5) show ?thesis by auto
  next
    fix m assume "rebuild_partition np env fs code ''create'' = (Inr resp, fs')"
    from rebuild_partition_Inr [OF this] assms(1) show ?thesis by auto
  next
    fix m assume "rebuild_partition np env fs code ''recreate'' = (Inr resp, fs')"
    from rebuild_partition_Inr [OF this] assms(1) show ?thesis by auto
  next
    fix e assume "resp = \<lparr>avg_loan = 0, source = '''', error = str e\<rparr>"
    with assms(5) show ?thesis by simp
  qed
  also have "?q = trunc_quot (sum_list (column_loan_amount ?rows))
                    (int (length (column_loan_amount ?rows)))"
    using assms(3) by (rule int_mean_exact)
  finally show ?thesis using trunc_quot_real [OF pos] by (simp add: column_loan_amount_def)
qed

theorem CalcAvgLoan_average_witness:
  "(sample_files(partition_path 55001 := Inr sample_partition)) main_file_path = Inr sample_main
   \<and> matching_rows 55001 sample_main \<noteq> []
   \<and> float64_exact (column_loan_amount (matching_rows 55001 sample_main))
   \<and> CalcAvgLoan numpy_sample healthy (sample_files(partition_path 55001 := Inr sample_partition)) 55001 =
       (\<lparr>avg_loan = 125000, source = ''reuse'', error = ''''\<rparr>,
        sample_files(partition_path 55001 := Inr sample_partition))
   \<and> source \<lparr>avg_loan = 125000, source = ''reuse'', error = ''''\<rparr> = ''reuse''
   \<and> (sample_files(partition_path 55001 := Inr sample_partition)) (partition_path 55001) =
       Inr (matching_rows 55001 sample_main)
   \<and> avg_loan \<lparr>avg_loan = 125000, source = ''reuse'', error = ''''\<rparr> =
       (if 0 \<le> sum_list (column_loan_amount (matching_rows 55001 sample_main))
        then \<lfloor>real_of_int (sum_list (column_loan_amount (matching_rows 55001 sample_main)))
               / real (length (matching_rows 55001 sample_main))\<rfloor>
        else \<lceil>real_of_int (sum_list (column_loan_amount (matching_rows 55001 sample_main)))
               / real (length (matching_rows 55001 sample_main))\<rceil>)"
proof -
  let ?fs = "sample_files(partition_path 55001 := Inr sample_partition)"
  let ?resp = "\<lparr>avg_loan = 125000, source = ''reuse'', error = ''''\<rparr>"
  have h1: "?fs main_file_path = Inr sample_main"
    using partition_path_not_main [of 55001] by (simp add: fun_upd_def sample_main_read)
  have h2: "matching_rows 55001 sample_main \<noteq> []" by (simp add: sample_rows sample_partition_def)
  have hx: "float64_exact (column_loan_amount (matching_rows 55001 sample_main))"
    by (simp add: sample_rows sample_partition_def float64_exact_def column_loan_amount_def mk_row_def)
  have h3: "CalcAvgLoan numpy_sample healthy ?fs 55001 = (?resp, ?fs)" by (rule sample_reuse)
  have h4: "source ?resp = ''reuse''" by simp
  have h5: "?fs (partition_path 55001) = Inr (matching_rows 55001 sample_main)"
    by (simp add: sample_rows)
  have c: "avg_loan ?resp =
       (if 0 \<le> sum_list (column_loan_amount (matching_rows 55001 sample_main))
        then \<lfloor>real_of_int (sum_list (column_loan_amount (matching_rows 55001 sample_main)))
               / real (length (matching_rows 55001 sample_main))\<rfloor>
        else \<lceil>real_of_int (sum_list (column_loan_amount (matching_rows 55001 sample_main)))
               / real (length (matching_rows 55001 sample_main))\<rceil>)"
    using CalcAvgLoan_average [where fs = ?fs and main = sample_main and code = 55001
        and np = numpy_sample and env = healthy and resp = ?resp and fs' = ?fs] h1 h2 hx h3 h4 h5
    by blast
  from h1 h2 hx h3 h4 h5 c show ?thesis by blast
qed

text \<open>
  The partition file is not compared with the main dataset: with a partition file left
  from an earlier main dataset the call returns source \<open>reuse\<close> and the mean of the file,
  200000, where the matching rows of the main dataset give 125000. And float64 has no
  \<open>2 ^ 53 + 1\<close>: for a single matching row of that amount numpy's mean is \<open>2 ^ 53\<close>, the
  value \<open>numpy_sample\<close> gives the parameter there.
\<close>

theorem CalcAvgLoan_average_counterexample:
  "stale_files main_file_path = Inr sample_main
   \<and> matching_rows 55001 sample_main = sample_partition
   \<and> sample_partition \<noteq> []
   \<and> trunc_quot (sum_list (column_loan_amount sample_partition)) (int (length sample_partition))
       = 125000
   \<and> CalcAvgLoan numpy_sample healthy stale_files 55001 =
       (\<lparr>avg_loan = 200000, source = ''reuse'', error = ''''\<rparr>, stale_files)
   \<and> huge_files main_file_path = Inr [mk_row 55001 9007199254740993]
   \<and> fst (CalcAvgLoan numpy_sample healthy huge_files 55001) =
       \<lparr>avg_loan = 9007199254740992, source = ''create'', error = ''''\<rparr>"
proof -
  have a: "stale_files main_file_path = Inr sample_main"
    using partition_path_not_main [of 55001]
    by (simp add: stale_files_def fun_upd_def sample_main_read)
  have b: "trunc_quot (sum_list (column_loan_amount sample_partition)) (int (length sample_partition))
       = 125000"
    by (simp add: column_loan_amount_def sample_partition_def mk_row_def trunc_quot_def)
  have c: "sample_partition \<noteq> []" by (simp add: sample_partition_def)
  have d: "huge_files main_file_path = Inr [mk_row 55001 9007199254740993]"
    by (simp add: huge_files_def)
  from a sample_rows c b stale_reuse d huge_create show ?thesis by blast
qed

text \<open>
  C3. The second handler of the inner \<^verbatim>\<open>try\<close> is there to repair a partition file that
  is "corrupted/unavailable", but it takes OSError only. A partition file whose content
  is not Parquet makes pyarrow raise ArrowInvalid, a ValueError: the call ends in the
  error result and the file is left as it is. With the blocks unavailable (an OSError)
  the same call repairs the file and returns source \<open>recreate\<close>.
\<close>

theorem CalcAvgLoan_corrupted_partition:
  "corrupted_files (partition_path 55001) =
     Inl (Exception ''Parquet magic bytes not found in footer'')
   \<and> corrupted_files main_file_path = Inr sample_main
   \<and> matching_rows 55001 sample_main = sample_partition
   \<and> CalcAvgLoan numpy_sample healthy corrupted_files 55001 =
       (\<lparr>avg_loan = 0, source = '''', error = ''Parquet magic bytes not found in footer''\<rparr>,
        corrupted_files)
   \<and> unavailable_files (partition_path 55001) = Inl (OSError ''Could not obtain block'')
   \<and> CalcAvgLoan numpy_sample healthy unavailable_files 55001 =
       (\<lparr>avg_loan = 125000, source = ''recreate'', error = ''''\<rparr>,
        unavailable_files(partition_path 55001 := Inr sample_partition))"
proof -
  have c: "CalcAvgLoan numpy_sample healthy corrupted_files 55001 =
       (\<lparr>avg_loan = 0, source = '''', error = ''Parquet magic bytes not found in footer''\<rparr>,
        corrupted_files)"
    by (simp add: CalcAvgLoan_def CalcAvgLoan_try_def reuse_partition_def corrupted_partition
        healthy_def)
  have h: "connect healthy = None" "connect_write healthy = None" "write_table healthy = None"
    by (simp_all add: healthy_def)
  have n: "matching_rows 55001 sample_main \<noteq> []" by (simp add: sample_rows sample_partition_def)
  have u: "CalcAvgLoan numpy_sample healthy unavailable_files 55001 =
       (\<lparr>avg_loan = 125000, source = ''recreate'', error = ''''\<rparr>,
        unavailable_files(partition_path 55001 := Inr sample_partition))"
    using CalcAvgLoan_recreate [where env = healthy and fs = unavailable_files and code = 55001
        and main = sample_main and np = numpy_sample and m = "''Could not obtain block''"]
      h unavailable_partition unavailable_main n
    by (simp add: sample_rows sample_partition_mean)
  from corrupted_partition corrupted_main sample_rows c unavailable_partition u
  show ?thesis by blast
qed

text \<open>
  C4. Every exception that the two inner handlers do not take ends in the error result:
  the store cannot be reached, reading the partition file raises something that is not
  an OSError, the partition file has no rows, the main dataset is missing or cannot be
  read, no row matches, or the connection for writing or the write fails. The call
  returns average 0, an empty source and \<^verbatim>\<open>str(e)\<close> as error: the error is empty exactly
  when the exception has no message.
\<close>

theorem CalcAvgLoan_unanticipated:
  assumes "connect env = Some e
       \<or> connect env = None \<and> fs (partition_path code) = Inl e \<and> (\<exists>m. e = Exception m)
       \<or> connect env = None \<and> fs (partition_path code) = Inr []
            \<and> e = Exception ''cannot convert float NaN to integer''
       \<or> connect env = None
            \<and> (\<exists>m. fs (partition_path code) = Inl (FileNotFoundError m)
                     \<or> fs (partition_path code) = Inl (OSError m))
            \<and> (fs main_file_path = Inl e
                \<or> (\<exists>main. fs main_file_path = Inr main \<and> matching_rows code main = []
                      \<and> e = Exception ''cannot convert float NaN to integer'')
                \<or> (\<exists>main. fs main_file_path = Inr main \<and> matching_rows code main \<noteq> []
                      \<and> (connect_write env = Some e
                          \<or> connect_write env = None
                             \<and> (write_table env = Some (OpenFails e)
                                 \<or> (\<exists>left. write_table env = Some (WriteFails e left))))))"
  shows "fst (CalcAvgLoan np env fs code) = \<lparr>avg_loan = 0, source = '''', error = str e\<rparr>
         \<and> (error (fst (CalcAvgLoan np env fs code)) = '''') = (str e = '''')"
proof -
  have "fst (CalcAvgLoan_try np env fs code) = Inl e"
    using assms
    by (auto simp: CalcAvgLoan_try_def reuse_partition_def column_loan_amount_def mean_int_Nil
        intro!: rebuild_partition_raises)
  from CalcAvgLoan_raised [OF this] show ?thesis by simp
qed

theorem CalcAvgLoan_unanticipated_witness:
  "connect healthy = None
   \<and> no_file (partition_path 55001) = Inl (FileNotFoundError ''No such file or directory'')
   \<and> no_file main_file_path = Inl (FileNotFoundError ''No such file or directory'')
   \<and> fst (CalcAvgLoan numpy_sample healthy no_file 55001) =
       \<lparr>avg_loan = 0, source = '''', error = ''No such file or directory''\<rparr>
   \<and> error (fst (CalcAvgLoan numpy_sample healthy no_file 55001)) \<noteq> ''''"
proof -
  have h: "connect healthy = None" by (simp add: healthy_def)
  have p: "no_file (partition_path 55001) = Inl (FileNotFoundError ''No such file or directory'')"
    and q: "no_file main_file_path = Inl (FileNotFoundError ''No such file or directory'')"
    by (simp_all add: no_file_def)
  show ?thesis
    using CalcAvgLoan_unanticipated [where e = "FileNotFoundError ''No such file or directory''"
        and env = healthy and fs = no_file and code = 55001 and np = numpy_sample] h p q
    by simp
qed

text \<open>
  An exception raised without a message, as Python's \<^verbatim>\<open>Exception()\<close>, has the empty
  string as its \<^verbatim>\<open>str\<close>: the error result then carries an empty error.
\<close>

theorem CalcAvgLoan_unanticipated_counterexample:
  "connect unreachable = Some (Exception '''')
   \<and> CalcAvgLoan numpy_sample unreachable sample_files 55001 =
       (\<lparr>avg_loan = 0, source = '''', error = ''''\<rparr>, sample_files)"
  by (simp add: unreachable_def CalcAvgLoan_def CalcAvgLoan_try_def)

text \<open>The cases listed in the theorem are all the ways the outer \<^verbatim>\<open>try\<close> block raises.\<close>

lemma CalcAvgLoan_try_raises:
  assumes "fst (CalcAvgLoan_try np env fs code) = Inl e"
  shows "connect env = Some e
       \<or> connect env = None \<and> fs (partition_path code) = Inl e \<and> (\<exists>m. e = Exception m)
       \<or> connect env = None \<and> fs (partition_path code) = Inr []
            \<and> e = Exception ''cannot convert float NaN to integer''
       \<or> connect env = None
            \<and> (\<exists>m. fs (partition_path code) = Inl (FileNotFoundError m)
                     \<or> fs (partition_path code) = Inl (OSError m))
            \<and> fst (rebuild_partition np env fs code
                 (if (\<exists>m. fs (partition_path code) = Inl (FileNotFoundError m))
                  then ''create'' else ''recreate'')) = Inl e"
  using assms
  by (auto simp: CalcAvgLoan_try_def split: option.splits sum.splits exn.splits
      dest!: reuse_partition_raises)

text \<open>
  C10. A key with no matching row in the main dataset and no partition file: the call
  returns average 0, an empty source and the (non-empty) message of the failed conversion
  of NaN; nothing is written.
\<close>

theorem CalcAvgLoan_zero_rows:
  assumes "connect env = None"
    and "fs (partition_path code) = Inl (FileNotFoundError m)"
    and "fs main_file_path = Inr main"
    and "matching_rows code main = []"
  shows "CalcAvgLoan np env fs code =
           (\<lparr>avg_loan = 0, source = '''', error = ''cannot convert float NaN to integer''\<rparr>, fs)
         \<and> error (fst (CalcAvgLoan np env fs code)) \<noteq> ''''"
  using assms
  by (simp add: CalcAvgLoan_def CalcAvgLoan_try_def reuse_partition_def rebuild_partition_def
      column_loan_amount_def mean_int_Nil)

theorem CalcAvgLoan_zero_rows_witness:
  "connect healthy = None
   \<and> sample_files (partition_path 55027) = Inl (FileNotFoundError ''No such file or directory'')
   \<and> sample_files main_file_path = Inr sample_main
   \<and> matching_rows 55027 sample_main = []
   \<and> CalcAvgLoan numpy_sample healthy sample_files 55027 =
       (\<lparr>avg_loan = 0, source = '''', error = ''cannot convert float NaN to integer''\<rparr>,
        sample_files)
   \<and> error (fst (CalcAvgLoan numpy_sample healthy sample_files 55027)) \<noteq> ''''"
proof -
  have h1: "connect healthy = None" by (simp add: healthy_def)
  have h2: "sample_files (partition_path 55027) = Inl (FileNotFoundError ''No such file or directory'')"
    by (simp add: sample_files_def no_file_def partition_path_not_main)
  have h3: "sample_files main_file_path = Inr sample_main" by (simp add: sample_files_def)
  have h4: "matching_rows 55027 sample_main = []"
    by (simp add: matching_rows_def sample_main_def mk_row_def)
  show ?thesis
    using CalcAvgLoan_zero_rows [where env = healthy and fs = sample_files and code = 55027
        and main = sample_main and np = numpy_sample] h1 h2 h3 h4
    by simp
qed

section \<open>Facts about DbToHdfs\<close>

lemma attempt_body_ok:
  assumes "attempt_raises w = None"
  shows "attempt_body w a s =
     (Inr (length (query (db w))),
      s\<lparr>events := events s @ [Attempt (a + 1)],
        hdfs := (hdfs s)(main_file_path := Inr (query (db w)))\<rparr>)"
  using assms
  by (auto simp: attempt_body_def attempt_raises_def Let_def main_file_path_def
      split: option.splits write_fault.splits)

lemma attempt_body_raises:
  assumes "attempt_raises w = Some e"
  shows "fst (attempt_body w a s) = Inl e
       \<and> events (snd (attempt_body w a s)) = events s @ [Attempt (a + 1)]"
  using assms
  by (auto simp: attempt_body_def attempt_raises_def Let_def
      split: option.splits write_fault.splits)

lemma retry_loop_fail_step:
  assumes "attempt_raises (env a) = Some e" and "a < 4"
  shows "retry_loop env (a # rest) s =
           retry_loop env rest
             ((snd (attempt_body (env a) a s))
                \<lparr>events := events s @ [Attempt (a + 1), Sleep 10]\<rparr>)"
  using attempt_body_raises [of "env a" e a s] assms
  by (cases "attempt_body (env a) a s") (simp add: max_retries_def)

lemma retry_loop_last:
  assumes "attempt_raises (env a) = Some e" and "\<not> a < 4"
  shows "retry_loop env (a # rest) s =
           (Some \<lparr>status = ''ERROR: Could not complete operation after 5 attempts: '' @ str e\<rparr>,
            snd (attempt_body (env a) a s))"
  using attempt_body_raises [of "env a" e a s] assms
  by (cases "attempt_body (env a) a s") (simp add: max_retries_def str_nat.simps digit_def)

lemma retry_loop_ok_step:
  assumes "attempt_raises (env a) = None"
  shows "retry_loop env (a # rest) s =
     (Some \<lparr>status = ''DbToHdfs: Successfully wrote '' @ str_nat (length (query (db (env a)))) @ '' rows''\<rparr>,
      s\<lparr>events := events s @ [Attempt (a + 1)],
        hdfs := (hdfs s)(main_file_path := Inr (query (db (env a))))\<rparr>)"
  using attempt_body_ok [of "env a" a s] assms by simp

lemma backoff_log_step: "a < k \<Longrightarrow> backoff_log a k = [Attempt (a + 1), Sleep 10] @ backoff_log (Suc a) k"
  by (simp add: backoff_log_def upt_conv_Cons)

lemma backoff_log_same: "backoff_log a a = []"
  by (simp add: backoff_log_def)

lemma retry_loop_succeeds:
  assumes "a \<le> k" and "k < 5"
    and "\<forall>i. a \<le> i \<and> i < k \<longrightarrow> attempt_raises (env i) \<noteq> None"
    and "attempt_raises (env k) = None"
  shows "fst (retry_loop env [a..<5] s) =
           Some \<lparr>status = ''DbToHdfs: Successfully wrote ''
                     @ str_nat (length (query (db (env k)))) @ '' rows''\<rparr>
       \<and> events (snd (retry_loop env [a..<5] s)) = events s @ backoff_log a k @ [Attempt (k + 1)]
       \<and> hdfs (snd (retry_loop env [a..<5] s)) main_file_path = Inr (query (db (env k)))"
  using assms
proof (induction "k - a" arbitrary: a s)
  case 0
  then have ak: "a = k" by simp
  have "[a..<5] = a # [Suc a..<5]" using 0 by (simp add: upt_conv_Cons)
  with 0 ak show ?case by (simp add: retry_loop_ok_step backoff_log_same del: retry_loop.simps)
next
  case (Suc n)
  then have lt: "a < k" by simp
  then obtain e where e: "attempt_raises (env a) = Some e" using Suc.prems(3) by auto
  have u: "[a..<5] = a # [Suc a..<5]" using lt Suc.prems(2) by (simp add: upt_conv_Cons)
  have a4: "a < 4" using lt Suc.prems(2) by simp
  let ?s = "(snd (attempt_body (env a) a s))\<lparr>events := events s @ [Attempt (a + 1), Sleep 10]\<rparr>"
  have step: "retry_loop env [a..<5] s = retry_loop env [Suc a..<5] ?s"
    unfolding u using e a4 by (rule retry_loop_fail_step [of env a e])
  have "n = k - Suc a" using Suc.hyps(2) by simp
  from Suc.hyps(1) [OF this, of ?s] Suc.prems lt
  have ih: "fst (retry_loop env [Suc a..<5] ?s) =
           Some \<lparr>status = ''DbToHdfs: Successfully wrote ''
                     @ str_nat (length (query (db (env k)))) @ '' rows''\<rparr>
       \<and> events (snd (retry_loop env [Suc a..<5] ?s)) = events ?s @ backoff_log (Suc a) k @ [Attempt (k + 1)]
       \<and> hdfs (snd (retry_loop env [Suc a..<5] ?s)) main_file_path = Inr (query (db (env k)))"
    by simp
  show ?case unfolding step using ih by (simp add: backoff_log_step [OF lt])
qed

lemma retry_loop_exhausted:
  assumes "a < 5"
    and "\<forall>i. a \<le> i \<and> i < 5 \<longrightarrow> attempt_raises (env i) \<noteq> None"
  shows "\<exists>e. attempt_raises (env 4) = Some e
       \<and> fst (retry_loop env [a..<5] s) =
           Some \<lparr>status = ''ERROR: Could not complete operation after 5 attempts: '' @ str e\<rparr>
       \<and> events (snd (retry_loop env [a..<5] s)) = events s @ backoff_log a 4 @ [Attempt 5]"
  using assms
proof (induction "4 - a" arbitrary: a s)
  case 0
  then have a4: "a = 4" by simp
  from 0 a4 obtain e where e: "attempt_raises (env 4) = Some e" by auto
  have u: "[4..<5] = [4::nat]" by (simp add: upt_conv_Cons)
  show ?case
    using e attempt_body_raises [of "env 4" e 4 s]
    by (simp add: a4 u retry_loop_last [where e = e] backoff_log_same del: retry_loop.simps)
next
  case (Suc n)
  then have lt: "a < 4" by simp
  then obtain e where e: "attempt_raises (env a) = Some e" using Suc.prems(2) by auto
  have u: "[a..<5] = a # [Suc a..<5]" using lt by (simp add: upt_conv_Cons)
  let ?s = "(snd (attempt_body (env a) a s))\<lparr>events := events s @ [Attempt (a + 1), Sleep 10]\<rparr>"
  have step: "retry_loop env [a..<5] s = retry_loop env [Suc a..<5] ?s"
    unfolding u using e lt by (rule retry_loop_fail_step [of env a e])
  have "n = 4 - Suc a" using Suc.hyps(2) by simp
  from Suc.hyps(1) [OF this, of ?s] Suc.prems lt
  have ih: "\<exists>e. attempt_raises (env 4) = Some e
       \<and> fst (retry_loop env [Suc a..<5] ?s) =
           Some \<lparr>status = ''ERROR: Could not complete operation after 5 attempts: '' @ str e\<rparr>
       \<and> events (snd (retry_loop env [Suc a..<5] ?s)) = events ?s @ backoff_log (Suc a) 4 @ [Attempt 5]"
    by simp
  show ?case unfolding step using ih by (simp add: backoff_log_step [OF lt])
qed

lemma join_one_loan:
  "map fst (concat (map (\<lambda>t. if loan_type_id l = type_id t then if P then [(l, t)] else [] else []) ts))
     = (if P then replicate (length (filter (\<lambda>t. loan_type_id l = type_id t) ts)) l else [])"
  by (induction ts) simp_all

lemma join_loans:
  "map fst (concat (map (\<lambda>l. concat (map (\<lambda>t. if loan_type_id l = type_id t
       then if P l then [(l, t)] else [] else []) ts)) ls))
   = concat (map (\<lambda>l. replicate (length (filter (\<lambda>t. loan_type_id l = type_id t) ts)) l)
       (filter P ls))"
  by (induction ls) (simp_all add: join_one_loan)

lemma query_fst:
  "map fst (query d) = concat (map (\<lambda>l. replicate (type_matches d l) l) (eligible_loans d))"
  unfolding query_def eligible_loans_def type_matches_def
  using join_loans [of "\<lambda>l. 30000 < loan_amount l \<and> loan_amount l < 800000"
      "loan_types d" "loans d"]
  by simp

lemma query_set:
  "set (query d) =
     {(l, t). l \<in> set (eligible_loans d) \<and> t \<in> set (loan_types d) \<and> loan_type_id l = type_id t}"
  by (auto simp: query_def eligible_loans_def split: if_splits)

lemma replicate_once:
  "list_all (\<lambda>l. f l = Suc 0) ls \<Longrightarrow> concat (map (\<lambda>l. replicate (f l) l) ls) = ls"
  by (induction ls) simp_all

lemma query_loans:
  assumes "one_type_each d"
  shows "map fst (query d) = eligible_loans d"
proof -
  have "list_all (\<lambda>l. type_matches d l = Suc 0) (eligible_loans d)"
    using assms by (auto simp: one_type_each_def eligible_loans_def list_all_iff)
  then show ?thesis by (simp add: query_fst replicate_once)
qed

lemma query_rows:
  "list_all (\<lambda>r. loan_type_id (fst r) = type_id (snd r)
                 \<and> 30000 < loan_amount (fst r) \<and> loan_amount (fst r) < 800000) (query d)"
  by (auto simp: query_def list_all_iff)

lemma DbToHdfs_upt: "DbToHdfs env s = retry_loop env [0..<5] s"
  by (simp add: DbToHdfs_def max_retries_def)

lemma sample_query:
  "query sample_db =
     [(\<lparr>loan_type_id = 1, county_code = 55001, loan_amount = 30001\<rparr>,
       \<lparr>type_id = 1, loan_type_name = ''Conventional''\<rparr>),
      (\<lparr>loan_type_id = 2, county_code = 55003, loan_amount = 799999\<rparr>,
       \<lparr>type_id = 2, loan_type_name = ''FHA-insured''\<rparr>),
      (\<lparr>loan_type_id = 1, county_code = 55027, loan_amount = 120000\<rparr>,
       \<lparr>type_id = 1, loan_type_name = ''Conventional''\<rparr>)]"
  by (simp add: query_def sample_db_def)

lemma sample_one_type_each: "one_type_each sample_db"
  by (simp add: one_type_each_def type_matches_def sample_db_def)

lemma good_attempt_ok: "attempt_raises good_attempt = None"
  by (simp add: attempt_raises_def good_attempt_def)

lemma db_down_raises: "attempt_raises db_down = Some (Exception ''Connection refused'')"
  by (simp add: attempt_raises_def db_down_def good_attempt_def)

lemma backoff_log_2: "backoff_log 0 2 = [Attempt 1, Sleep 10, Attempt 2, Sleep 10]"
  by (simp add: backoff_log_def upt_conv_Cons)

lemma backoff_log_4:
  "backoff_log 0 4 = [Attempt 1, Sleep 10, Attempt 2, Sleep 10, Attempt 3, Sleep 10, Attempt 4, Sleep 10]"
  by (simp add: backoff_log_def upt_conv_Cons)

section \<open>Properties of DbToHdfs\<close>

text \<open>
  C5. When the attempts before attempt \<open>k\<close> fail and attempt \<open>k\<close> succeeds (counting from
  0, \<open>k < 5\<close>), the call returns at once with the status that reports the number of rows
  written, and its log is: each failed attempt followed by a sleep of 10, then the
  successful attempt. When all five attempts fail it returns the error status with the
  message of the last exception, after four sleeps. In every case a status is returned
  (the loop never runs off its end) and at most five attempts are made.
\<close>

theorem DbToHdfs_retry:
  "(k < 5 \<and> (\<forall>i<k. attempt_raises (env i) \<noteq> None) \<and> attempt_raises (env k) = None \<longrightarrow>
      fst (DbToHdfs env s) =
        Some \<lparr>status = ''DbToHdfs: Successfully wrote ''
                  @ str_nat (length (query (db (env k)))) @ '' rows''\<rparr>
      \<and> events (snd (DbToHdfs env s)) = events s @ backoff_log 0 k @ [Attempt (k + 1)]
      \<and> hdfs (snd (DbToHdfs env s)) main_file_path = Inr (query (db (env k))))
   \<and> ((\<forall>i<5. attempt_raises (env i) \<noteq> None) \<longrightarrow>
      (\<exists>e. attempt_raises (env 4) = Some e
         \<and> fst (DbToHdfs env s) =
             Some \<lparr>status = ''ERROR: Could not complete operation after 5 attempts: '' @ str e\<rparr>)
      \<and> events (snd (DbToHdfs env s)) = events s @ backoff_log 0 4 @ [Attempt 5])
   \<and> fst (DbToHdfs env s) \<noteq> None
   \<and> (\<exists>n<5. events (snd (DbToHdfs env s)) = events s @ backoff_log 0 n @ [Attempt (n + 1)])"
proof -
  have ok: "fst (DbToHdfs env s) =
        Some \<lparr>status = ''DbToHdfs: Successfully wrote ''
                  @ str_nat (length (query (db (env j)))) @ '' rows''\<rparr>
      \<and> events (snd (DbToHdfs env s)) = events s @ backoff_log 0 j @ [Attempt (j + 1)]
      \<and> hdfs (snd (DbToHdfs env s)) main_file_path = Inr (query (db (env j)))"
    if "j < 5" "\<forall>i<j. attempt_raises (env i) \<noteq> None" "attempt_raises (env j) = None" for j
    unfolding DbToHdfs_upt using retry_loop_succeeds [of 0 j env s] that by simp
  have bad: "(\<exists>e. attempt_raises (env 4) = Some e
         \<and> fst (DbToHdfs env s) =
             Some \<lparr>status = ''ERROR: Could not complete operation after 5 attempts: '' @ str e\<rparr>)
      \<and> events (snd (DbToHdfs env s)) = events s @ backoff_log 0 4 @ [Attempt 5]"
    if "\<forall>i<5. attempt_raises (env i) \<noteq> None"
    unfolding DbToHdfs_upt using retry_loop_exhausted [of 0 env s] that by auto
  have total: "fst (DbToHdfs env s) \<noteq> None
     \<and> (\<exists>n<5. events (snd (DbToHdfs env s)) = events s @ backoff_log 0 n @ [Attempt (n + 1)])"
  proof (cases "\<forall>i<5. attempt_raises (env i) \<noteq> None")
    case True
    from bad [OF True] show ?thesis by (auto intro: exI [of _ 4])
  next
    case False
    define j where "j = (LEAST i. attempt_raises (env i) = None)"
    from False obtain i where i: "i < 5" "attempt_raises (env i) = None" by auto
    have j: "attempt_raises (env j) = None" unfolding j_def using i(2) by (rule LeastI)
    have le: "j \<le> i" unfolding j_def using i(2) by (rule Least_le)
    have before: "\<forall>i<j. attempt_raises (env i) \<noteq> None"
      unfolding j_def using not_less_Least by blast
    from ok [of j] j le i(1) before show ?thesis by auto
  qed
  from ok [of k] bad total show ?thesis by blast
qed

theorem DbToHdfs_retry_witness:
  "(2::nat) < 5 \<and> attempt_raises (flaky 0) \<noteq> None \<and> attempt_raises (flaky 1) \<noteq> None
   \<and> attempt_raises (flaky 2) = None
   \<and> fst (DbToHdfs flaky initial_state) = Some \<lparr>status = ''DbToHdfs: Successfully wrote 3 rows''\<rparr>
   \<and> events (snd (DbToHdfs flaky initial_state)) =
        [Attempt 1, Sleep 10, Attempt 2, Sleep 10, Attempt 3]
   \<and> attempt_raises db_down \<noteq> None
   \<and> fst (DbToHdfs (\<lambda>i. db_down) initial_state) =
        Some \<lparr>status = ''ERROR: Could not complete operation after 5 attempts: Connection refused''\<rparr>
   \<and> events (snd (DbToHdfs (\<lambda>i. db_down) initial_state)) =
        [Attempt 1, Sleep 10, Attempt 2, Sleep 10, Attempt 3, Sleep 10, Attempt 4, Sleep 10, Attempt 5]"
proof -
  have f: "\<forall>i<2. attempt_raises (flaky i) \<noteq> None" by (simp add: flaky_def db_down_raises)
  have g: "attempt_raises (flaky 2) = None" by (simp add: flaky_def good_attempt_ok)
  have d: "\<forall>i<5. attempt_raises ((\<lambda>i. db_down) i) \<noteq> None" by (simp add: db_down_raises)
  have n: "str_nat (length (query (db (flaky 2)))) = ''3''"
    by (simp add: flaky_def good_attempt_def sample_query str_nat.simps digit_def)
  have e: "events initial_state = []" by (simp add: initial_state_def)
  from DbToHdfs_retry [of 2 flaky initial_state] f g
  have a: "fst (DbToHdfs flaky initial_state) =
        Some \<lparr>status = ''DbToHdfs: Successfully wrote ''
                  @ str_nat (length (query (db (flaky 2)))) @ '' rows''\<rparr>
      \<and> events (snd (DbToHdfs flaky initial_state)) =
          events initial_state @ backoff_log 0 2 @ [Attempt (2 + 1)]"
    by simp
  from DbToHdfs_retry [of 0 "\<lambda>i. db_down" initial_state] d
  have b: "(\<exists>e. attempt_raises db_down = Some e
         \<and> fst (DbToHdfs (\<lambda>i. db_down) initial_state) =
             Some \<lparr>status = ''ERROR: Could not complete operation after 5 attempts: '' @ str e\<rparr>)
      \<and> events (snd (DbToHdfs (\<lambda>i. db_down) initial_state)) =
          events initial_state @ backoff_log 0 4 @ [Attempt 5]"
    by blast
  from a have a': "fst (DbToHdfs flaky initial_state) = Some \<lparr>status = ''DbToHdfs: Successfully wrote 3 rows''\<rparr>
     \<and> events (snd (DbToHdfs flaky initial_state)) = [Attempt 1, Sleep 10, Attempt 2, Sleep 10, Attempt 3]"
    by (simp add: n e backoff_log_2)
  from b have b': "fst (DbToHdfs (\<lambda>i. db_down) initial_state) =
        Some \<lparr>status = ''ERROR: Could not complete operation after 5 attempts: Connection refused''\<rparr>
     \<and> events (snd (DbToHdfs (\<lambda>i. db_down) initial_state)) =
        [Attempt 1, Sleep 10, Attempt 2, Sleep 10, Attempt 3, Sleep 10, Attempt 4, Sleep 10, Attempt 5]"
    by (simp add: db_down_raises e backoff_log_4)
  have f0: "attempt_raises (flaky 0) \<noteq> None" and f1: "attempt_raises (flaky 1) \<noteq> None"
    using f by simp_all
  have d0: "attempt_raises db_down \<noteq> None" by (simp add: db_down_raises)
  from f0 f1 g d0 a' b' show ?thesis by simp
qed

text \<open>
  C8. The rows written to the main dataset by a successful call are the rows of the
  inner join of the loans whose amount is strictly between 30000 and 800000 with their
  loan types: a loan at or outside a bound is never written, and an eligible loan is
  written once for every row of \<^verbatim>\<open>loan_types\<close> whose id is its \<^verbatim>\<open>loan_type_id\<close>. So the loans
  written are exactly the eligible loans when every loan names exactly one loan type.
\<close>

theorem DbToHdfs_rows:
  assumes "k < 5"
    and "\<forall>i<k. attempt_raises (env i) \<noteq> None"
    and "attempt_raises (env k) = None"
  shows "\<exists>t. hdfs (snd (DbToHdfs env s)) main_file_path = Inr t
           \<and> set t = {(l, ty). l \<in> set (eligible_loans (db (env k)))
                          \<and> ty \<in> set (loan_types (db (env k)))
                          \<and> loan_type_id l = type_id ty}
           \<and> map fst t = concat (map (\<lambda>l. replicate (type_matches (db (env k)) l) l)
                                    (eligible_loans (db (env k))))
           \<and> (one_type_each (db (env k)) \<longrightarrow> map fst t = eligible_loans (db (env k)))"
proof -
  have "hdfs (snd (DbToHdfs env s)) main_file_path = Inr (query (db (env k)))"
    unfolding DbToHdfs_upt using retry_loop_succeeds [of 0 k env s] assms by simp
  then show ?thesis
    using query_set [of "db (env k)"] query_fst [of "db (env k)"] query_loans [of "db (env k)"]
    by blast
qed

theorem DbToHdfs_rows_witness:
  "(2::nat) < 5 \<and> attempt_raises (flaky 0) \<noteq> None \<and> attempt_raises (flaky 1) \<noteq> None
   \<and> attempt_raises (flaky 2) = None
   \<and> one_type_each (db (flaky 2))
   \<and> (\<exists>t. hdfs (snd (DbToHdfs flaky initial_state)) main_file_path = Inr t
           \<and> map fst t = eligible_loans (db (flaky 2)))
   \<and> eligible_loans (db (flaky 2)) =
       [\<lparr>loan_type_id = 1, county_code = 55001, loan_amount = 30001\<rparr>,
        \<lparr>loan_type_id = 2, county_code = 55003, loan_amount = 799999\<rparr>,
        \<lparr>loan_type_id = 1, county_code = 55027, loan_amount = 120000\<rparr>]"
proof -
  have k: "(2::nat) < 5" by simp
  have f: "\<forall>i<2. attempt_raises (flaky i) \<noteq> None" by (simp add: flaky_def db_down_raises)
  have g: "attempt_raises (flaky 2) = None" by (simp add: flaky_def good_attempt_ok)
  have o: "one_type_each (db (flaky 2))"
    by (simp add: flaky_def good_attempt_def sample_one_type_each)
  have l: "eligible_loans (db (flaky 2)) =
       [\<lparr>loan_type_id = 1, county_code = 55001, loan_amount = 30001\<rparr>,
        \<lparr>loan_type_id = 2, county_code = 55003, loan_amount = 799999\<rparr>,
        \<lparr>loan_type_id = 1, county_code = 55027, loan_amount = 120000\<rparr>]"
    by (simp add: eligible_loans_def flaky_def good_attempt_def sample_db_def)
  note t = DbToHdfs_rows [of 2 flaky initial_state, OF k f g]
  from t o have c: "\<exists>t. hdfs (snd (DbToHdfs flaky initial_state)) main_file_path = Inr t
           \<and> map fst t = eligible_loans (db (flaky 2))"
    by blast
  have f0: "attempt_raises (flaky 0) \<noteq> None" and f1: "attempt_raises (flaky 1) \<noteq> None"
    using f by simp_all
  from k f0 f1 g o c l show ?thesis by blast
qed

text \<open>
  A loan with an eligible amount whose \<^verbatim>\<open>loan_type_id\<close> is the id of no loan type is not
  in the join: the call succeeds and writes no row.
\<close>

theorem DbToHdfs_rows_counterexample:
  "eligible_loans orphan_db = [\<lparr>loan_type_id = 7, county_code = 55001, loan_amount = 120000\<rparr>]
   \<and> fst (DbToHdfs (every_attempt orphan_attempt) initial_state) =
       Some \<lparr>status = ''DbToHdfs: Successfully wrote 0 rows''\<rparr>
   \<and> hdfs (snd (DbToHdfs (every_attempt orphan_attempt) initial_state)) main_file_path = Inr []"
proof -
  have e: "eligible_loans orphan_db =
      [\<lparr>loan_type_id = 7, county_code = 55001, loan_amount = 120000\<rparr>]"
    by (simp add: eligible_loans_def orphan_db_def)
  have q: "query (db (every_attempt orphan_attempt 0)) = []"
    by (simp add: every_attempt_def orphan_attempt_def query_def orphan_db_def)
  have r: "attempt_raises (every_attempt orphan_attempt 0) = None"
    by (simp add: every_attempt_def orphan_attempt_def attempt_raises_def good_attempt_def)
  have "fst (DbToHdfs (every_attempt orphan_attempt) initial_state) =
          Some \<lparr>status = ''DbToHdfs: Successfully wrote ''
                    @ str_nat (length (query (db (every_attempt orphan_attempt 0)))) @ '' rows''\<rparr>
      \<and> hdfs (snd (DbToHdfs (every_attempt orphan_attempt) initial_state)) main_file_path =
          Inr (query (db (every_attempt orphan_attempt 0)))"
    unfolding DbToHdfs_upt
    using retry_loop_succeeds [of 0 0 "every_attempt orphan_attempt" initial_state] r by simp
  with e show ?thesis by (simp add: q str_nat.simps digit_def)
qed

text \<open>
  C9. The database connection is closed on line 40 only, after \<^verbatim>\<open>pd.read_sql\<close> returned:
  when the query raises, the attempt ends with its connection open, and a call whose five
  attempts fail so returns with five connections open.
\<close>

theorem DbToHdfs_connection_leak:
  "attempt_body query_fails 0 initial_state =
     (Inl (Exception ''Lost connection during query''),
      \<lparr>hdfs = no_file, open_connections = 1, events = [Attempt 1]\<rparr>)
   \<and> fst (DbToHdfs (\<lambda>i. query_fails) initial_state) =
       Some \<lparr>status = ''ERROR: Could not complete operation after 5 attempts: Lost connection during query''\<rparr>
   \<and> open_connections (snd (DbToHdfs (\<lambda>i. query_fails) initial_state)) = 5"
proof -
  have u: "[0..<5] = [0, 1, 2, 3, 4::nat]" by (simp add: upt_conv_Cons)
  have q: "db_connect query_fails = None"
    "read_sql query_fails = Some (Exception ''Lost connection during query'')"
    by (simp_all add: query_fails_def good_attempt_def)
  have b: "attempt_body query_fails a s =
     (Inl (Exception ''Lost connection during query''),
      s\<lparr>events := events s @ [Attempt (a + 1)], open_connections := open_connections s + 1\<rparr>)"
    for a s
    by (simp add: attempt_body_def q Let_def)
  show ?thesis
    by (simp add: DbToHdfs_def max_retries_def u b initial_state_def str_nat.simps digit_def)
qed

section \<open>Facts about BlockLocations\<close>

lemma count_hosts_entry:
  "count_hosts blocks hs h =
     (if h \<in> set hs then Some (counter blocks h + int (count_list hs h)) else blocks h)"
  by (induction hs arbitrary: blocks) (auto simp: counter_def split: option.splits)

lemma count_blocks_entry:
  "count_blocks blocks bs h =
     (if h \<in> set (concat (map block_hosts bs))
      then Some (counter blocks h + int (count_list (concat (map block_hosts bs)) h))
      else blocks h)"
proof (induction bs arbitrary: blocks)
  case Nil
  then show ?case by simp
next
  case (Cons b bs)
  show ?case
    by (simp add: Cons.IH count_hosts_entry counter_def count_list_0_iff)
qed

lemma count_blocks_empty:
  "count_blocks Map.empty bs h =
     (if h \<in> set (concat (map block_hosts bs))
      then Some (int (count_list (concat (map block_hosts bs)) h))
      else None)"
  by (simp add: count_blocks_entry counter_def)

lemma dom_count_blocks_empty:
  "dom (count_blocks Map.empty bs) = set (concat (map block_hosts bs))"
  by (auto simp: count_blocks_empty dom_def)

lemma sum_count_blocks_empty:
  "(\<Sum>h \<in> dom (count_blocks Map.empty bs). the (count_blocks Map.empty bs h))
     = int (length (concat (map block_hosts bs)))"
proof -
  let ?all = "concat (map block_hosts bs)"
  have "(\<Sum>h \<in> dom (count_blocks Map.empty bs). the (count_blocks Map.empty bs h))
        = (\<Sum>h \<in> set ?all. int (count_list ?all h))"
    unfolding dom_count_blocks_empty by (rule sum.cong) (simp_all add: count_blocks_empty)
  also have "\<dots> = int (\<Sum>h \<in> set ?all. count_list ?all h)" by simp
  also have "\<dots> = int (length ?all)" by (simp add: sum_count_set)
  finally show ?thesis .
qed

lemma length_concat_uniform:
  "\<forall>b \<in> set bs. length (block_hosts b) = r \<Longrightarrow>
   length (concat (map block_hosts bs)) = length bs * r"
  by (induction bs) simp_all

lemma raise_for_status_message: "raise_for_status r = Some e \<Longrightarrow> str e \<noteq> ''''"
  by (auto simp: raise_for_status_def split: if_splits)

lemma sample_404:
  "raise_for_status (not_found (webhdfs_url ''/missing'')) =
     Some (Exception (''404 Client Error: Not Found for url: '' @ webhdfs_url ''/missing''))"
  by (simp add: raise_for_status_def not_found_def str_nat.simps digit_def)

lemma sample_hosts:
  "concat (map block_hosts (block_location_list sample_result)) = [''dn1'', ''dn2'', ''dn2'', ''dn3'']"
  by (simp add: sample_result_def block_location_list_def block_hosts_def)

section \<open>Properties of BlockLocations\<close>

text \<open>
  C6. When the metadata query fails (the request raises, the answer has an error status,
  such as 404 for a path that does not exist, or its body is not JSON), the call returns
  an empty mapping and \<^verbatim>\<open>str(e)\<close> as error. After an error status the error is never
  empty; in the two other cases it is empty exactly when the exception has no message.
\<close>

theorem BlockLocations_query_fails:
  assumes "web (webhdfs_url path) = Inl e
         \<or> (\<exists>r. web (webhdfs_url path) = Inr r
               \<and> (raise_for_status r = Some e
                   \<or> raise_for_status r = None \<and> json r = Inl e))"
  shows "BlockLocations web path = \<lparr>block_entries = Map.empty, error = str e\<rparr>
         \<and> ((\<exists>r. web (webhdfs_url path) = Inr r \<and> raise_for_status r = Some e)
              \<longrightarrow> BlockLocationsResp.error (BlockLocations web path) \<noteq> '''')
         \<and> (BlockLocationsResp.error (BlockLocations web path) = '''') = (str e = '''')"
proof -
  have r: "BlockLocations web path = \<lparr>block_entries = Map.empty, error = str e\<rparr>"
    using assms by (auto simp: BlockLocations_def Let_def)
  then show ?thesis by (auto dest: raise_for_status_message)
qed

theorem BlockLocations_query_fails_witness:
  "sample_web (webhdfs_url ''/missing'') = Inr (not_found (webhdfs_url ''/missing''))
   \<and> raise_for_status (not_found (webhdfs_url ''/missing'')) =
     Some (Exception (''404 Client Error: Not Found for url: '' @ webhdfs_url ''/missing''))
   \<and> BlockLocations sample_web ''/missing'' =
       \<lparr>block_entries = Map.empty,
        error = ''404 Client Error: Not Found for url: '' @ webhdfs_url ''/missing''\<rparr>
   \<and> BlockLocationsResp.error (BlockLocations sample_web ''/missing'') \<noteq> ''''"
proof -
  have w: "sample_web (webhdfs_url ''/missing'') = Inr (not_found (webhdfs_url ''/missing''))"
    by (simp add: sample_web_def webhdfs_url_def)
  note t = BlockLocations_query_fails [where web = sample_web and path = "''/missing''"
      and e = "Exception (''404 Client Error: Not Found for url: '' @ webhdfs_url ''/missing'')"]
  from t w sample_404
  have c: "BlockLocations sample_web ''/missing'' =
       \<lparr>block_entries = Map.empty,
        error = str (Exception (''404 Client Error: Not Found for url: '' @ webhdfs_url ''/missing''))\<rparr>
     \<and> BlockLocationsResp.error (BlockLocations sample_web ''/missing'') \<noteq> ''''"
    by blast
  from w sample_404 c show ?thesis by simp
qed

text \<open>
  An exception raised without a message has the empty string as its \<^verbatim>\<open>str\<close>: when the
  request raises one, the error field is empty.
\<close>

theorem BlockLocations_query_fails_counterexample:
  "silent_web (webhdfs_url ''/missing'') = Inl (Exception '''')
   \<and> BlockLocationsResp.error (BlockLocations silent_web ''/missing'') = ''''"
  by (simp add: silent_web_def BlockLocations_def Let_def)

text \<open>
  C7. On a successful call the counter of a host is the number of (block, replica host)
  pairs that name it, hosts that no block names have no entry, and the counters add up to
  the number of such pairs: for a file whose blocks list \<open>r\<close> hosts each, the number of
  blocks times \<open>r\<close>.
\<close>

theorem BlockLocations_counts:
  assumes "web (webhdfs_url path) = Inr response"
    and "raise_for_status response = None"
    and "json response = Inr result"
  shows "BlockLocationsResp.error (BlockLocations web path) = ''''
     \<and> (\<forall>host. block_entries (BlockLocations web path) host =
          (if host \<in> set (concat (map block_hosts (block_location_list result)))
           then Some (int (count_list (concat (map block_hosts (block_location_list result))) host))
           else None))
     \<and> (\<Sum>host \<in> dom (block_entries (BlockLocations web path)).
           the (block_entries (BlockLocations web path) host))
        = int (length (concat (map block_hosts (block_location_list result))))
     \<and> ((\<forall>b \<in> set (block_location_list result). length (block_hosts b) = r) \<longrightarrow>
         (\<Sum>host \<in> dom (block_entries (BlockLocations web path)).
           the (block_entries (BlockLocations web path) host))
         = int (length (block_location_list result) * r))"
proof -
  let ?all = "concat (map block_hosts (block_location_list result))"
  have resp: "BlockLocations web path =
      \<lparr>block_entries = count_blocks Map.empty (block_location_list result), error = []\<rparr>"
    using assms by (simp add: BlockLocations_def Let_def)
  have ent: "block_entries (BlockLocations web path) =
      count_blocks Map.empty (block_location_list result)"
    by (simp add: resp)
  have e: "BlockLocationsResp.error (BlockLocations web path) = []" by (simp add: resp)
  have c: "\<forall>host. block_entries (BlockLocations web path) host =
          (if host \<in> set ?all then Some (int (count_list ?all host)) else None)"
    unfolding ent by (simp only: count_blocks_empty) simp
  have t: "(\<Sum>host \<in> dom (block_entries (BlockLocations web path)).
           the (block_entries (BlockLocations web path) host)) = int (length ?all)"
    unfolding ent by (rule sum_count_blocks_empty)
  have u: "(\<forall>b \<in> set (block_location_list result). length (block_hosts b) = r) \<longrightarrow>
         (\<Sum>host \<in> dom (block_entries (BlockLocations web path)).
           the (block_entries (BlockLocations web path) host))
         = int (length (block_location_list result) * r)"
    using t length_concat_uniform [of "block_location_list result" r] by simp
  from e c t u show ?thesis by blast
qed

theorem BlockLocations_counts_witness:
  "sample_web (webhdfs_url ''/hdma-wi-2021.parquet'') = Inr ok_response
   \<and> raise_for_status ok_response = None
   \<and> json ok_response = Inr sample_result
   \<and> map (\<lambda>b. length (block_hosts b)) (block_location_list sample_result) = [2, 2]
   \<and> BlockLocationsResp.error (BlockLocations sample_web ''/hdma-wi-2021.parquet'') = ''''
   \<and> block_entries (BlockLocations sample_web ''/hdma-wi-2021.parquet'') ''dn2'' = Some 2
   \<and> (\<Sum>host \<in> dom (block_entries (BlockLocations sample_web ''/hdma-wi-2021.parquet'')).
         the (block_entries (BlockLocations sample_web ''/hdma-wi-2021.parquet'') host)) = 4"
proof -
  have w: "sample_web (webhdfs_url ''/hdma-wi-2021.parquet'') = Inr ok_response"
    by (simp add: sample_web_def)
  have s: "raise_for_status ok_response = None"
    by (simp add: raise_for_status_def ok_response_def)
  have u: "\<forall>b \<in> set (block_location_list sample_result). length (block_hosts b) = 2"
    and l: "length (block_location_list sample_result) = 2"
    by (simp_all add: sample_result_def block_location_list_def block_hosts_def)
  have j: "json ok_response = Inr sample_result" by (simp add: ok_response_def)
  note t = BlockLocations_counts [of sample_web "''/hdma-wi-2021.parquet''"
        ok_response sample_result 2, OF w s j]
  from t have e: "BlockLocationsResp.error (BlockLocations sample_web ''/hdma-wi-2021.parquet'') = []"
    by blast
  from t have "block_entries (BlockLocations sample_web ''/hdma-wi-2021.parquet'') ''dn2'' =
          (if ''dn2'' \<in> set (concat (map block_hosts (block_location_list sample_result)))
           then Some (int (count_list (concat (map block_hosts (block_location_list sample_result))) ''dn2''))
           else None)"
    by blast
  then have d: "block_entries (BlockLocations sample_web ''/hdma-wi-2021.parquet'') ''dn2'' = Some 2"
    by (simp add: sample_hosts)
  from t u have "(\<Sum>host \<in> dom (block_entries (BlockLocations sample_web ''/hdma-wi-2021.parquet'')).
         the (block_entries (BlockLocations sample_web ''/hdma-wi-2021.parquet'') host))
       = int (length (block_location_list sample_result) * 2)"
    by blast
  then have f: "(\<Sum>host \<in> dom (block_entries (BlockLocations sample_web ''/hdma-wi-2021.parquet'')).
         the (block_entries (BlockLocations sample_web ''/hdma-wi-2021.parquet'') host)) = 4"
    by (simp only: l)
  have m: "map (\<lambda>b. length (block_hosts b)) (block_location_list sample_result) = [2, 2]"
    by (simp add: sample_result_def block_location_list_def block_hosts_def)
  from w s j m e d f show ?thesis by blast
qed

end
